theory Spec2Isabelle
  imports Complex_Main "HOL-Library.Multiset"
begin

section \<open>Common conventions\<close>

text \<open>
  The repository is a set of stand-alone TypeScript scripts, one design pattern each.
  Every class is embedded as a record (its fields) or a datatype (a closed family of
  classes implementing one interface), every method as a function that takes the object
  and returns the updated object, and every \<^verbatim>\<open>forEach\<close> as a recursive function over the
  array.

  The TypeScript type \<^verbatim>\<open>number\<close> is read as a real number: the arithmetic of the examples
  is stated in exact arithmetic, rounding of IEEE doubles is outside the model. An object
  reference is a natural number; \<^verbatim>\<open>!==\<close> on objects is inequality of references.
  No file of the repository contains a \<^verbatim>\<open>throw\<close> statement, hence no function below has
  an error branch.
\<close>

type_synonym number = real

type_synonym ref = nat


section \<open>Observer: \<^verbatim>\<open>WeatherStation\<close>\<close>

record WeatherData =
  temperature :: number
  humidity :: number

text \<open>
  The bodies of \<^verbatim>\<open>update\<close> in the three display classes print and return; they never
  touch the station. The effect of one invocation \<^verbatim>\<open>observer.update(data)\<close> is recorded
  as one entry of a call log: which observer was called, and with which reading.
\<close>

datatype invocation = Update (receiver: ref) (reading: WeatherData)

record WeatherStation =
  observers :: "ref list"
  data :: WeatherData

definition new_WeatherStation :: WeatherStation where
  "new_WeatherStation = \<lparr>observers = [], data = \<lparr>temperature = 0, humidity = 0\<rparr>\<rparr>"

definition subscribe :: "ref \<Rightarrow> WeatherStation \<Rightarrow> WeatherStation" where
  "subscribe observer ws = ws\<lparr>observers := observers ws @ [observer]\<rparr>"

definition unsubscribe :: "ref \<Rightarrow> WeatherStation \<Rightarrow> WeatherStation" where
  "unsubscribe observer ws =
     ws\<lparr>observers := filter (\<lambda>obs. obs \<noteq> observer) (observers ws)\<rparr>"

text \<open>\<^verbatim>\<open>this.observers.forEach((observer) => observer.update(this.data))\<close>\<close>

fun forEach_update :: "ref list \<Rightarrow> WeatherData \<Rightarrow> invocation list \<Rightarrow> invocation list" where
  "forEach_update [] d calls = calls"
| "forEach_update (observer # rest) d calls =
     forEach_update rest d (calls @ [Update observer d])"

definition notify :: "WeatherStation \<Rightarrow> invocation list \<Rightarrow> invocation list" where
  "notify ws calls = forEach_update (observers ws) (data ws) calls"

definition setWeatherData ::
  "WeatherData \<Rightarrow> WeatherStation \<Rightarrow> invocation list \<Rightarrow> WeatherStation \<times> invocation list" where
  "setWeatherData d ws calls = (let ws' = ws\<lparr>data := d\<rparr> in (ws', notify ws' calls))"

text \<open>
  A run of consecutive state changes, as in the driver of the script: each reading is
  passed to \<^verbatim>\<open>setWeatherData\<close> in turn.
\<close>

definition setWeatherData_all ::
  "WeatherData list \<Rightarrow> WeatherStation \<times> invocation list \<Rightarrow> WeatherStation \<times> invocation list" where
  "setWeatherData_all ds st = fold (\<lambda>d (ws, calls). setWeatherData d ws calls) ds st"

text \<open>The invocations of one observer in a call log.\<close>

definition received :: "ref \<Rightarrow> invocation list \<Rightarrow> invocation list" where
  "received observer calls = filter (\<lambda>c. receiver c = observer) calls"


section \<open>Strategy: \<^verbatim>\<open>Cart\<close>\<close>

datatype Strategy =
    FlatDiscountStrategy number
  | NoDiscountStrategy
  | PercentageDiscountStrategy number

fun doDiscount :: "Strategy \<Rightarrow> number \<Rightarrow> number" where
  "doDiscount (FlatDiscountStrategy discountAmount) price = price - discountAmount"
| "doDiscount NoDiscountStrategy price = price"
| "doDiscount (PercentageDiscountStrategy discountRate) price =
     price * (1 - (discountRate / 100))"

record Item =
  name :: string
  price :: number
  quantity :: number

record Cart =
  items :: "Item list"
  strategy :: Strategy

definition new_Cart :: "Strategy \<Rightarrow> Cart" where
  "new_Cart s = \<lparr>items = [], strategy = s\<rparr>"

definition addItem :: "Item \<Rightarrow> Cart \<Rightarrow> Cart" where
  "addItem item c = c\<lparr>items := items c @ [item]\<rparr>"

definition setDiscountStrategy :: "Strategy \<Rightarrow> Cart \<Rightarrow> Cart" where
  "setDiscountStrategy s c = c\<lparr>strategy := s\<rparr>"

text \<open>\<^verbatim>\<open>this.items.forEach((item) => total += item.price * item.quantity)\<close>\<close>

fun forEach_total :: "Item list \<Rightarrow> number \<Rightarrow> number" where
  "forEach_total [] tot = tot"
| "forEach_total (item # rest) tot = forEach_total rest (tot + price item * quantity item)"

definition getTotalPrice :: "Cart \<Rightarrow> number" where
  "getTotalPrice c = (let tot = forEach_total (items c) 0 in doDiscount (strategy c) tot)"


section \<open>Decorator: \<^verbatim>\<open>Coffee\<close>\<close>

text \<open>
  \<^verbatim>\<open>CoffeeDecorator\<close> is abstract; the objects that exist are a \<^verbatim>\<open>PlainCoffee\<close> or one of
  the three concrete decorators around another coffee.
\<close>

datatype Coffee =
    PlainCoffee
  | MilkDecorator Coffee
  | SugarDecorator Coffee
  | CaramelDecorator Coffee

fun getCost :: "Coffee \<Rightarrow> number" where
  "getCost PlainCoffee = 100"
| "getCost (MilkDecorator coffee) = getCost coffee + 50"
| "getCost (SugarDecorator coffee) = getCost coffee + 20"
| "getCost (CaramelDecorator coffee) = getCost coffee + 100"

fun getDescription :: "Coffee \<Rightarrow> string" where
  "getDescription PlainCoffee = ''Plain Coffee''"
| "getDescription (MilkDecorator coffee) = getDescription coffee @ '' Milk''"
| "getDescription (SugarDecorator coffee) = getDescription coffee @ '' Sugar''"
| "getDescription (CaramelDecorator coffee) = getDescription coffee @ '' Caramel''"

text \<open>
  Vocabulary for stating properties of a chain: the decorator layers of a coffee, listed
  from the outermost (constructed last) to the innermost, and the constants each layer
  contributes in the source.
\<close>

datatype Layer = Milk | Sugar | Caramel

fun layers :: "Coffee \<Rightarrow> Layer list" where
  "layers PlainCoffee = []"
| "layers (MilkDecorator coffee) = Milk # layers coffee"
| "layers (SugarDecorator coffee) = Sugar # layers coffee"
| "layers (CaramelDecorator coffee) = Caramel # layers coffee"

fun increment :: "Layer \<Rightarrow> number" where
  "increment Milk = 50"
| "increment Sugar = 20"
| "increment Caramel = 100"

fun suffix_of :: "Layer \<Rightarrow> string" where
  "suffix_of Milk = '' Milk''"
| "suffix_of Sugar = '' Sugar''"
| "suffix_of Caramel = '' Caramel''"


section \<open>Factory: \<^verbatim>\<open>ShapeFactory\<close>\<close>

datatype Shape = Circle | Rectangle | Square

text \<open>\<^verbatim>\<open>draw\<close> prints one line; the console is the list of lines printed so far.\<close>

fun draw :: "Shape \<Rightarrow> string list \<Rightarrow> string list" where
  "draw Circle console = console @ [''Drawing circle.'']"
| "draw Rectangle console = console @ [''Drawing rectangle.'']"
| "draw Square console = console @ [''Drawing square.'']"

definition createShape :: "string \<Rightarrow> Shape" where
  "createShape type =
     (if type = ''Circle'' then Circle
      else if type = ''Rectangle'' then Rectangle
      else if type = ''Square'' then Square
      else Circle)"


section \<open>Builder: \<^verbatim>\<open>CustomPizzaBuilder\<close>\<close>

text \<open>
  The fields of \<^verbatim>\<open>Pizza\<close> and of \<^verbatim>\<open>CustomPizzaBuilder\<close> have the same names in the source
  (\<^verbatim>\<open>size\<close>, \<^verbatim>\<open>crust\<close>, \<^verbatim>\<open>toppings\<close>, \<^verbatim>\<open>sauce\<close>); they are suffixed here to tell them apart
  and to keep \<^const>\<open>size\<close> free. The setters return \<^verbatim>\<open>this\<close>: here, the updated builder.
  \<^verbatim>\<open>build\<close> hands the builder's topping array itself to the pizza; the pizza below is the
  product as it is when \<^verbatim>\<open>build\<close> returns.
\<close>

record Pizza =
  size_p :: string
  crust_p :: string
  toppings_p :: "string list"
  sauce_p :: string

definition new_Pizza :: "string \<Rightarrow> string \<Rightarrow> string list \<Rightarrow> string \<Rightarrow> Pizza" where
  "new_Pizza s c ts sc = \<lparr>size_p = s, crust_p = c, toppings_p = ts, sauce_p = sc\<rparr>"

record CustomPizzaBuilder =
  size_b :: string
  crust_b :: string
  toppings_b :: "string list"
  sauce_b :: string

definition new_CustomPizzaBuilder :: CustomPizzaBuilder where
  "new_CustomPizzaBuilder =
     \<lparr>size_b = ''regular'', crust_b = ''thin'', toppings_b = [], sauce_b = ''tomato''\<rparr>"

definition setSize :: "string \<Rightarrow> CustomPizzaBuilder \<Rightarrow> CustomPizzaBuilder" where
  "setSize s b = b\<lparr>size_b := s\<rparr>"

definition setCrust :: "string \<Rightarrow> CustomPizzaBuilder \<Rightarrow> CustomPizzaBuilder" where
  "setCrust c b = b\<lparr>crust_b := c\<rparr>"

definition addTopping :: "string \<Rightarrow> CustomPizzaBuilder \<Rightarrow> CustomPizzaBuilder" where
  "addTopping t b = b\<lparr>toppings_b := toppings_b b @ [t]\<rparr>"

definition setSauce :: "string \<Rightarrow> CustomPizzaBuilder \<Rightarrow> CustomPizzaBuilder" where
  "setSauce sc b = b\<lparr>sauce_b := sc\<rparr>"

definition build :: "CustomPizzaBuilder \<Rightarrow> Pizza" where
  "build b = new_Pizza (size_b b) (crust_b b) (toppings_b b) (sauce_b b)"

text \<open>
  A chain of fluent calls \<^verbatim>\<open>builder.m1(a1).m2(a2)...\<close> is a list of setter calls applied
  from left to right.
\<close>

datatype setter_call =
    SetSize string
  | SetCrust string
  | AddTopping string
  | SetSauce string

fun apply_call :: "setter_call \<Rightarrow> CustomPizzaBuilder \<Rightarrow> CustomPizzaBuilder" where
  "apply_call (SetSize s) b = setSize s b"
| "apply_call (SetCrust c) b = setCrust c b"
| "apply_call (AddTopping t) b = addTopping t b"
| "apply_call (SetSauce sc) b = setSauce sc b"

fun chain :: "setter_call list \<Rightarrow> CustomPizzaBuilder \<Rightarrow> CustomPizzaBuilder" where
  "chain [] b = b"
| "chain (c # cs) b = chain cs (apply_call c b)"

text \<open>The toppings a chain of calls adds, in call order.\<close>

fun added_toppings :: "setter_call list \<Rightarrow> string list" where
  "added_toppings [] = []"
| "added_toppings (AddTopping t # cs) = t # added_toppings cs"
| "added_toppings (c # cs) = added_toppings cs"


section \<open>Singleton: \<^verbatim>\<open>DatabaseConnection\<close>\<close>

text \<open>
  The static fields \<^verbatim>\<open>instance\<close> and \<^verbatim>\<open>lock\<close> and the objects allocated by the private
  constructor form the state of the process. The heap lists the \<^verbatim>\<open>DatabaseConnection\<close>
  objects in order of construction, and the reference of an object is its position, so
  the length of the heap counts the runs of the constructor. The constructor reads the
  clock; \<^verbatim>\<open>getInstance\<close> takes as argument the text \<^verbatim>\<open>Date.now().toString()\<close> has at the
  time of the call. The result is \<^const>\<open>None\<close> where the source returns \<^verbatim>\<open>null\<close>
  (the \<^verbatim>\<open>!\<close> of \<^verbatim>\<open>this.instance!\<close> is erased by the compiler).
\<close>

record DatabaseConnection =
  id_c :: string

record process =
  instance_s :: "ref option"
  lock :: bool
  heap :: "DatabaseConnection list"

definition initial :: process where
  "initial = \<lparr>instance_s = None, lock = False, heap = []\<rparr>"

definition new_DatabaseConnection :: "string \<Rightarrow> process \<Rightarrow> ref \<times> process" where
  "new_DatabaseConnection now p = (length (heap p), p\<lparr>heap := heap p @ [\<lparr>id_c = now\<rparr>]\<rparr>)"

definition getInstance :: "string \<Rightarrow> process \<Rightarrow> ref option \<times> process" where
  "getInstance now p =
     (let p1 =
        (if instance_s p = None then
           (if \<not> lock p then
              (let p' = p\<lparr>lock := True\<rparr>;
                   (r, p'') = new_DatabaseConnection now p'
               in p''\<lparr>instance_s := Some r\<rparr>)
            else p)
         else p)
      in (instance_s p1, p1))"

text \<open>A sequence of accessor calls: the references returned, and the final state.\<close>

fun getInstance_calls :: "string list \<Rightarrow> process \<Rightarrow> ref option list \<times> process" where
  "getInstance_calls [] p = ([], p)"
| "getInstance_calls (now # rest) p =
     (let (r, p1) = getInstance now p;
          (rs, p2) = getInstance_calls rest p1
      in (r # rs, p2))"


section \<open>Adapter: \<^verbatim>\<open>PaymentProcessor\<close>\<close>

text \<open>
  The gateways print one line with the amount. The conversion of a number to text by a
  template literal or by \<^verbatim>\<open>+\<close> is a built-in of the language; it is the parameter
  \<open>toString\<close>. The console is the list of lines printed so far. \<^verbatim>\<open>reverse\<close> prints the
  same prefix as \<^verbatim>\<open>pay\<close> in the source.
\<close>

definition makePayment :: "(number \<Rightarrow> string) \<Rightarrow> number \<Rightarrow> string list \<Rightarrow> string list" where
  "makePayment toString amount console =
     console @ [''Processing Legacy payment : '' @ toString amount]"

definition cancelPayment :: "(number \<Rightarrow> string) \<Rightarrow> number \<Rightarrow> string list \<Rightarrow> string list" where
  "cancelPayment toString amount console =
     console @ [''Refunding Legacy payment : '' @ toString amount]"

definition pay :: "(number \<Rightarrow> string) \<Rightarrow> number \<Rightarrow> string list \<Rightarrow> string list" where
  "pay toString amount console =
     console @ [''Processing Modern payment : '' @ toString amount]"

definition reverse :: "(number \<Rightarrow> string) \<Rightarrow> number \<Rightarrow> string list \<Rightarrow> string list" where
  "reverse toString amount console =
     console @ [''Processing Modern payment : '' @ toString amount]"

text \<open>The two adapters; each holds a gateway, which has no field.\<close>

datatype PaymentProcessor = LegacyPaymentAdapter | ModernPaymentAdapter

fun processPayment ::
  "(number \<Rightarrow> string) \<Rightarrow> PaymentProcessor \<Rightarrow> number \<Rightarrow> string list \<Rightarrow> string list" where
  "processPayment toString LegacyPaymentAdapter amount console =
     makePayment toString amount console"
| "processPayment toString ModernPaymentAdapter amount console =
     pay toString amount console"

fun refundPayment ::
  "(number \<Rightarrow> string) \<Rightarrow> PaymentProcessor \<Rightarrow> number \<Rightarrow> string list \<Rightarrow> string list" where
  "refundPayment toString LegacyPaymentAdapter amount console =
     cancelPayment toString amount console"
| "refundPayment toString ModernPaymentAdapter amount console =
     reverse toString amount console"


section \<open>Facade: the subsystem operations with a numeric argument\<close>

text \<open>
  \<^verbatim>\<open>Lights.dim\<close>, \<^verbatim>\<open>MusicSystem.setVolume\<close> and \<^verbatim>\<open>AirConditioner.setTemperature\<close>; the first
  is named \<open>dim_lights\<close> here, \<open>dim\<close> being the dimension of a vector space.
\<close>

definition dim_lights :: "(number \<Rightarrow> string) \<Rightarrow> number \<Rightarrow> string list \<Rightarrow> string list" where
  "dim_lights toString level console = console @ [''Dim Lights to '' @ toString level]"

definition setVolume :: "(number \<Rightarrow> string) \<Rightarrow> number \<Rightarrow> string list \<Rightarrow> string list" where
  "setVolume toString level console = console @ [''Setting volume to '' @ toString level]"

definition setTemperature :: "(number \<Rightarrow> string) \<Rightarrow> number \<Rightarrow> string list \<Rightarrow> string list" where
  "setTemperature toString level console =
     console @ [''Setting temperature to '' @ toString level]"


section \<open>Properties of the Observer\<close>

lemma forEach_update_log:
  "forEach_update os d calls = calls @ map (\<lambda>observer. Update observer d) os"
  by (induction os arbitrary: calls) simp_all

lemma setWeatherData_log:
  "snd (setWeatherData d ws calls) = calls @ map (\<lambda>observer. Update observer d) (observers ws)"
  by (simp add: setWeatherData_def notify_def forEach_update_log Let_def)

lemma observers_fold_subscribe:
  "observers (fold subscribe os ws) = observers ws @ os"
  by (induction os arbitrary: ws) (simp_all add: subscribe_def)

lemma received_append:
  "received ob (xs @ ys) = received ob xs @ received ob ys"
  by (simp add: received_def)

lemma received_map_Update:
  "received ob (map (\<lambda>observer. Update observer d) os) =
     replicate (count_list os ob) (Update ob d)"
  by (induction os) (simp_all add: received_def)

lemma count_list_filter_neq:
  "count_list (filter (\<lambda>obs. obs \<noteq> ob) os) p = (if p = ob then 0 else count_list os p)"
  by (induction os) simp_all

lemma setWeatherData_all_received:
  "received ob (snd (setWeatherData_all ds (ws, calls))) =
     received ob calls @ concat (map (\<lambda>d. replicate (count_list (observers ws) ob) (Update ob d)) ds)"
  unfolding setWeatherData_all_def
proof (induction ds arbitrary: ws calls)
  case Nil
  show ?case by simp
next
  case (Cons d ds)
  have step: "setWeatherData d ws calls =
      (ws\<lparr>data := d\<rparr>, calls @ map (\<lambda>observer. Update observer d) (observers ws))"
    by (simp add: setWeatherData_def notify_def forEach_update_log Let_def)
  show ?case
    by (simp add: step Cons.IH received_append received_map_Update)
qed

text \<open>
  C1. One call of \<^verbatim>\<open>setWeatherData\<close> on a station with \<open>N\<close> subscribers appends exactly
  \<open>N\<close> invocations of \<^verbatim>\<open>update\<close> to the call log; every one of them carries the new
  reading, and their receivers are the subscriber list, in order. The subscriber list
  is in subscription order: subscribing \<open>os\<close> one after the other to a new station
  leaves exactly \<open>os\<close>.
\<close>

theorem broadcast_reaches_every_subscriber_in_order:
  "(\<exists>new. snd (setWeatherData d ws calls) = calls @ new
        \<and> length new = length (observers ws)
        \<and> map reading new = replicate (length (observers ws)) d
        \<and> map receiver new = observers ws)
   \<and> observers (fold subscribe os new_WeatherStation) = os"
proof -
  let ?new = "map (\<lambda>observer. Update observer d) (observers ws)"
  have "snd (setWeatherData d ws calls) = calls @ ?new"
    by (rule setWeatherData_log)
  moreover have "length ?new = length (observers ws)" by simp
  moreover have "map reading ?new = replicate (length (observers ws)) d"
    by (simp add: map_replicate_const comp_def)
  moreover have "map receiver ?new = observers ws"
    by (simp add: comp_def)
  moreover have "observers (fold subscribe os new_WeatherStation) = os"
    by (simp add: observers_fold_subscribe new_WeatherStation_def)
  ultimately show ?thesis by blast
qed

text \<open>
  C8. After \<^verbatim>\<open>unsubscribe(ob)\<close>, a state change notifies the remaining subscribers, in
  their order and as often as they are subscribed, each with the new reading, and never
  \<open>ob\<close>. Unsubscribing a reference that is not subscribed leaves the station as it
  is.
\<close>

theorem unsubscribed_observer_is_skipped:
  "(\<exists>new. snd (setWeatherData d (unsubscribe ob ws) calls) = calls @ new
        \<and> map receiver new = filter (\<lambda>obs. obs \<noteq> ob) (observers ws)
        \<and> map reading new = replicate (length new) d
        \<and> received ob new = []
        \<and> (\<forall>p. p \<noteq> ob \<longrightarrow> length (received p new) = count_list (observers ws) p))
   \<and> (ob \<notin> set (observers ws) \<longrightarrow> unsubscribe ob ws = ws)"
proof -
  let ?rest = "filter (\<lambda>obs. obs \<noteq> ob) (observers ws)"
  let ?new = "map (\<lambda>observer. Update observer d) ?rest"
  have obs: "observers (unsubscribe ob ws) = ?rest"
    by (simp add: unsubscribe_def)
  have "snd (setWeatherData d (unsubscribe ob ws) calls) = calls @ ?new"
    by (simp add: setWeatherData_log obs)
  moreover have "map receiver ?new = ?rest"
    by (simp add: comp_def)
  moreover have "map reading ?new = replicate (length ?new) d"
    by (simp add: map_replicate_const comp_def)
  moreover have "received ob ?new = []"
    by (simp add: received_map_Update count_list_filter_neq)
  moreover have "\<forall>p. p \<noteq> ob \<longrightarrow> length (received p ?new) = count_list (observers ws) p"
    by (simp add: received_map_Update count_list_filter_neq)
  moreover have "ob \<notin> set (observers ws) \<longrightarrow> unsubscribe ob ws = ws"
  proof
    assume "ob \<notin> set (observers ws)"
    then have "?rest = observers ws"
      by (auto simp add: filter_id_conv)
    then show "unsubscribe ob ws = ws"
      by (simp add: unsubscribe_def)
  qed
  ultimately show ?thesis by blast
qed

theorem unsubscribed_observer_is_skipped_witness:
  "(\<exists>new. snd (setWeatherData \<lparr>temperature = 35, humidity = 20\<rparr>
              (unsubscribe 2 \<lparr>observers = [1, 2, 3], data = \<lparr>temperature = 0, humidity = 0\<rparr>\<rparr>)
              []) = new
        \<and> map receiver new = [1, 3]
        \<and> received 2 new = []
        \<and> length (received 3 new) = 1)
   \<and> 7 \<notin> set (observers \<lparr>observers = [1, 2, 3], data = \<lparr>temperature = 0, humidity = 0\<rparr>\<rparr>)
   \<and> unsubscribe 7 \<lparr>observers = [1, 2, 3], data = \<lparr>temperature = 0, humidity = 0\<rparr>\<rparr> =
        \<lparr>observers = [1, 2, 3], data = \<lparr>temperature = 0, humidity = 0\<rparr>\<rparr>"
proof -
  let ?ws = "\<lparr>observers = [1, 2, 3], data = \<lparr>temperature = 0, humidity = 0\<rparr>\<rparr>"
  let ?d = "\<lparr>temperature = 35, humidity = 20\<rparr>"
  have absent: "7 \<notin> set (observers ?ws)" by simp
  from unsubscribed_observer_is_skipped [of ?d 2 ?ws "[]"]
  obtain new where new:
    "snd (setWeatherData ?d (unsubscribe 2 ?ws) []) = [] @ new"
    "map receiver new = filter (\<lambda>obs. obs \<noteq> 2) (observers ?ws)"
    "received 2 new = []"
    "\<forall>p. p \<noteq> 2 \<longrightarrow> length (received p new) = count_list (observers ?ws) p"
    by blast
  from new(4) have three: "length (received 3 new) = 1" by simp
  from new(2) have order: "map receiver new = [1, 3]" by simp
  have first: "\<exists>new. snd (setWeatherData ?d (unsubscribe 2 ?ws) []) = new
        \<and> map receiver new = [1, 3] \<and> received 2 new = [] \<and> length (received 3 new) = 1"
    using new(1) new(3) three order by simp
  have noop: "unsubscribe 7 ?ws = ?ws"
    using unsubscribed_observer_is_skipped [of ?d 7 ?ws "[]"] absent by blast
  from first absent noop show ?thesis by (intro conjI)
qed

text \<open>
  C10. An observer subscribed more than once is notified once per subscription at a
  state change. One call of \<^verbatim>\<open>unsubscribe\<close> removes every occurrence of it from the
  subscriber list, and no later state change, however many follow, notifies it again.
\<close>

theorem unsubscribe_removes_every_occurrence:
  assumes "1 < count_list (observers ws) ob"
  shows "length (received ob (snd (setWeatherData d ws calls))) =
           length (received ob calls) + count_list (observers ws) ob
       \<and> count_list (observers (unsubscribe ob ws)) ob = 0
       \<and> ob \<notin> set (observers (unsubscribe ob ws))
       \<and> received ob (snd (setWeatherData_all ds (unsubscribe ob ws, calls))) = received ob calls"
proof -
  have a: "length (received ob (snd (setWeatherData d ws calls))) =
           length (received ob calls) + count_list (observers ws) ob"
    by (simp add: setWeatherData_log received_append received_map_Update)
  have b: "count_list (observers (unsubscribe ob ws)) ob = 0"
    by (simp add: unsubscribe_def count_list_filter_neq)
  have c: "ob \<notin> set (observers (unsubscribe ob ws))"
    by (simp add: unsubscribe_def)
  have d: "received ob (snd (setWeatherData_all ds (unsubscribe ob ws, calls))) = received ob calls"
    by (simp add: setWeatherData_all_received b)
  from a b c d show ?thesis by blast
qed

theorem unsubscribe_removes_every_occurrence_witness:
  "1 < count_list (observers \<lparr>observers = [1, 2, 1], data = \<lparr>temperature = 0, humidity = 0\<rparr>\<rparr>) 1
   \<and> length (received 1 (snd (setWeatherData \<lparr>temperature = 35, humidity = 20\<rparr>
        \<lparr>observers = [1, 2, 1], data = \<lparr>temperature = 0, humidity = 0\<rparr>\<rparr> []))) = 2
   \<and> count_list (observers
        (unsubscribe 1 \<lparr>observers = [1, 2, 1], data = \<lparr>temperature = 0, humidity = 0\<rparr>\<rparr>)) 1 = 0
   \<and> received 1 (snd (setWeatherData_all
        [\<lparr>temperature = 35, humidity = 20\<rparr>, \<lparr>temperature = 45, humidity = 10\<rparr>]
        (unsubscribe 1 \<lparr>observers = [1, 2, 1], data = \<lparr>temperature = 0, humidity = 0\<rparr>\<rparr>, []))) = []"
proof -
  let ?ws = "\<lparr>observers = [1, 2, 1], data = \<lparr>temperature = 0, humidity = 0\<rparr>\<rparr>"
  have twice: "1 < count_list (observers ?ws) 1" by simp
  from unsubscribe_removes_every_occurrence [OF twice,
      of "\<lparr>temperature = 35, humidity = 20\<rparr>" "[]"
         "[\<lparr>temperature = 35, humidity = 20\<rparr>, \<lparr>temperature = 45, humidity = 10\<rparr>]"]
  show ?thesis by (simp add: received_def)
qed


section \<open>Properties of the Strategy\<close>

lemma forEach_total_sum:
  "forEach_total xs tot = tot + (\<Sum>item\<leftarrow>xs. price item * quantity item)"
  by (induction xs arbitrary: tot) simp_all

text \<open>
  C4. After \<^verbatim>\<open>setDiscountStrategy(s)\<close>, \<^verbatim>\<open>getTotalPrice\<close> is \<open>s\<close> applied to the sum of
  price times quantity over the items of the cart. The strategy held before does not
  enter the result, and the swap leaves the items as they are.
\<close>

theorem swapped_strategy_decides_total:
  "getTotalPrice (setDiscountStrategy s c) =
     doDiscount s (\<Sum>item\<leftarrow>items c. price item * quantity item)
   \<and> getTotalPrice (setDiscountStrategy s (setDiscountStrategy s0 c)) =
     getTotalPrice (setDiscountStrategy s c)
   \<and> items (setDiscountStrategy s c) = items c
   \<and> strategy (setDiscountStrategy s c) = s"
  by (simp add: getTotalPrice_def setDiscountStrategy_def forEach_total_sum)


section \<open>Properties of the Decorator\<close>

lemma getCost_layers: "getCost c = 100 + (\<Sum>l\<leftarrow>layers c. increment l)"
  by (induction c) simp_all

lemma sum_list_increment_mset:
  "(\<Sum>l\<leftarrow>ls. increment l) = sum_mset (image_mset increment (mset ls))"
  by (induction ls) simp_all

text \<open>
  C5. The cost of a chain is the base cost 100 plus the increment of every layer. Two
  chains with the same layers, in whatever order, cost the same; milk and sugar around
  a plain coffee cost 170 with either of them outermost.
\<close>

theorem decorator_cost_is_sum_of_layers:
  "getCost c = 100 + (\<Sum>l\<leftarrow>layers c. increment l)
   \<and> (mset (layers c) = mset (layers c') \<longrightarrow> getCost c = getCost c')
   \<and> getCost (SugarDecorator (MilkDecorator PlainCoffee)) = 170
   \<and> getCost (MilkDecorator (SugarDecorator PlainCoffee)) = 170"
proof -
  have "mset (layers c) = mset (layers c') \<longrightarrow> getCost c = getCost c'"
    by (simp add: getCost_layers sum_list_increment_mset)
  then show ?thesis
    by (simp add: getCost_layers)
qed

theorem decorator_cost_is_sum_of_layers_witness:
  "mset (layers (SugarDecorator (MilkDecorator PlainCoffee))) =
     mset (layers (MilkDecorator (SugarDecorator PlainCoffee)))
   \<and> getCost (SugarDecorator (MilkDecorator PlainCoffee)) =
     getCost (MilkDecorator (SugarDecorator PlainCoffee))
   \<and> getCost (SugarDecorator (MilkDecorator PlainCoffee)) = 170"
  using decorator_cost_is_sum_of_layers
    [of "SugarDecorator (MilkDecorator PlainCoffee)" "MilkDecorator (SugarDecorator PlainCoffee)"]
  by simp

text \<open>
  C6. The description of a chain is the base description followed by the suffix of
  every layer, from the innermost layer to the outermost: the order of construction.
  Sugar around milk around a plain coffee reads \<open>Plain Coffee Milk Sugar\<close>; with the
  nesting swapped the two suffixes swap.
\<close>

theorem decorator_description_follows_nesting:
  "getDescription c = ''Plain Coffee'' @ concat (map suffix_of (rev (layers c)))
   \<and> getDescription (SugarDecorator (MilkDecorator PlainCoffee)) = ''Plain Coffee Milk Sugar''
   \<and> getDescription (MilkDecorator (SugarDecorator PlainCoffee)) = ''Plain Coffee Sugar Milk''"
proof -
  have "getDescription c = ''Plain Coffee'' @ concat (map suffix_of (rev (layers c)))"
    by (induction c) simp_all
  then show ?thesis by simp
qed


section \<open>Properties of the Factory\<close>

text \<open>
  C3. For each of the three known discriminators the created shape draws the line of
  that discriminator. For any other string the factory returns the default variant, a
  circle, and its line is drawn.
\<close>

theorem factory_known_and_fallback:
  "draw (createShape ''Circle'') console = console @ [''Drawing circle.'']
   \<and> draw (createShape ''Rectangle'') console = console @ [''Drawing rectangle.'']
   \<and> draw (createShape ''Square'') console = console @ [''Drawing square.'']
   \<and> (type \<noteq> ''Circle'' \<and> type \<noteq> ''Rectangle'' \<and> type \<noteq> ''Square'' \<longrightarrow>
        createShape type = Circle
        \<and> draw (createShape type) console = console @ [''Drawing circle.''])"
  by (simp add: createShape_def)

theorem factory_known_and_fallback_witness:
  "''Triangle'' \<noteq> ''Circle'' \<and> ''Triangle'' \<noteq> ''Rectangle'' \<and> ''Triangle'' \<noteq> ''Square''
   \<and> createShape ''Triangle'' = Circle
   \<and> draw (createShape ''Triangle'') [] = [''Drawing circle.'']
   \<and> draw (createShape ''Square'') [] = [''Drawing square.'']"
  using factory_known_and_fallback [of "[]" "''Triangle''"]
  by simp


section \<open>Properties of the Builder\<close>

lemmas setter_defs = setSize_def setCrust_def addTopping_def setSauce_def

lemma chain_toppings: "toppings_b (chain cs b) = toppings_b b @ added_toppings cs"
proof (induction cs arbitrary: b)
  case Nil
  show ?case by simp
next
  case (Cons c cs)
  show ?case
    by (cases c) (simp_all add: Cons.IH setter_defs)
qed

lemma chain_size_untouched:
  "\<forall>s'. SetSize s' \<notin> set cs \<Longrightarrow> size_b (chain cs b) = size_b b"
proof (induction cs arbitrary: b)
  case Nil
  show ?case by simp
next
  case (Cons c cs)
  then show ?case
    by (cases c) (auto simp add: setter_defs)
qed

lemma chain_crust_untouched:
  "\<forall>c'. SetCrust c' \<notin> set cs \<Longrightarrow> crust_b (chain cs b) = crust_b b"
proof (induction cs arbitrary: b)
  case Nil
  show ?case by simp
next
  case (Cons c cs)
  then show ?case
    by (cases c) (auto simp add: setter_defs)
qed

lemma chain_sauce_untouched:
  "\<forall>sc'. SetSauce sc' \<notin> set cs \<Longrightarrow> sauce_b (chain cs b) = sauce_b b"
proof (induction cs arbitrary: b)
  case Nil
  show ?case by simp
next
  case (Cons c cs)
  then show ?case
    by (cases c) (auto simp add: setter_defs)
qed

lemma chain_size_set:
  "SetSize s \<in> set cs \<Longrightarrow> \<forall>s'. SetSize s' \<in> set cs \<longrightarrow> s' = s \<Longrightarrow> size_b (chain cs b) = s"
proof (induction cs arbitrary: b)
  case Nil
  then show ?case by simp
next
  case (Cons c cs)
  have uniq: "\<forall>s'. SetSize s' \<in> set cs \<longrightarrow> s' = s"
    using Cons.prems(2) by (meson list.set_intros(2))
  show ?case
  proof (cases "SetSize s \<in> set cs")
    case True
    have "size_b (chain cs (apply_call c b)) = s"
      using True uniq by (rule Cons.IH)
    then show ?thesis by simp
  next
    case False
    with Cons.prems(1) have c: "c = SetSize s" by simp
    have none: "\<forall>s'. SetSize s' \<notin> set cs"
      using uniq False by blast
    show ?thesis
      by (simp add: c chain_size_untouched [OF none] setSize_def)
  qed
qed

lemma chain_crust_set:
  "SetCrust s \<in> set cs \<Longrightarrow> \<forall>s'. SetCrust s' \<in> set cs \<longrightarrow> s' = s \<Longrightarrow> crust_b (chain cs b) = s"
proof (induction cs arbitrary: b)
  case Nil
  then show ?case by simp
next
  case (Cons c cs)
  have uniq: "\<forall>s'. SetCrust s' \<in> set cs \<longrightarrow> s' = s"
    using Cons.prems(2) by (meson list.set_intros(2))
  show ?case
  proof (cases "SetCrust s \<in> set cs")
    case True
    have "crust_b (chain cs (apply_call c b)) = s"
      using True uniq by (rule Cons.IH)
    then show ?thesis by simp
  next
    case False
    with Cons.prems(1) have c: "c = SetCrust s" by simp
    have none: "\<forall>s'. SetCrust s' \<notin> set cs"
      using uniq False by blast
    show ?thesis
      by (simp add: c chain_crust_untouched [OF none] setCrust_def)
  qed
qed

lemma chain_sauce_set:
  "SetSauce s \<in> set cs \<Longrightarrow> \<forall>s'. SetSauce s' \<in> set cs \<longrightarrow> s' = s \<Longrightarrow> sauce_b (chain cs b) = s"
proof (induction cs arbitrary: b)
  case Nil
  then show ?case by simp
next
  case (Cons c cs)
  have uniq: "\<forall>s'. SetSauce s' \<in> set cs \<longrightarrow> s' = s"
    using Cons.prems(2) by (meson list.set_intros(2))
  show ?case
  proof (cases "SetSauce s \<in> set cs")
    case True
    have "sauce_b (chain cs (apply_call c b)) = s"
      using True uniq by (rule Cons.IH)
    then show ?thesis by simp
  next
    case False
    with Cons.prems(1) have c: "c = SetSauce s" by simp
    have none: "\<forall>s'. SetSauce s' \<notin> set cs"
      using uniq False by blast
    show ?thesis
      by (simp add: c chain_sauce_untouched [OF none] setSauce_def)
  qed
qed

text \<open>
  C7, as amended. Each setter changes its own field of the builder and no other. On a
  new builder, the five calls of the scenario (size \<open>Large\<close>, crust \<open>Thin\<close>, toppings
  \<open>Cheese\<close> and \<open>Pepperoni\<close>, sauce \<open>Spicy\<close>), made in any order in which \<open>Cheese\<close> is
  added before \<open>Pepperoni\<close>, build the pizza with exactly these four values.
  \<^verbatim>\<open>addTopping\<close> appends, so the topping list is in call order (\<open>chain_toppings\<close>); the
  order of the two topping calls is the one thing the result depends on.
\<close>

theorem builder_result_independent_of_call_order:
  "(size_b (setSize s b) = s \<and> crust_b (setSize s b) = crust_b b
      \<and> toppings_b (setSize s b) = toppings_b b \<and> sauce_b (setSize s b) = sauce_b b)
   \<and> (crust_b (setCrust c b) = c \<and> size_b (setCrust c b) = size_b b
      \<and> toppings_b (setCrust c b) = toppings_b b \<and> sauce_b (setCrust c b) = sauce_b b)
   \<and> (toppings_b (addTopping t b) = toppings_b b @ [t] \<and> size_b (addTopping t b) = size_b b
      \<and> crust_b (addTopping t b) = crust_b b \<and> sauce_b (addTopping t b) = sauce_b b)
   \<and> (sauce_b (setSauce sc b) = sc \<and> size_b (setSauce sc b) = size_b b
      \<and> crust_b (setSauce sc b) = crust_b b \<and> toppings_b (setSauce sc b) = toppings_b b)
   \<and> (mset cs = {#SetSize ''Large'', SetCrust ''Thin'', AddTopping ''Cheese'',
                   AddTopping ''Pepperoni'', SetSauce ''Spicy''#}
        \<and> added_toppings cs = [''Cheese'', ''Pepperoni''] \<longrightarrow>
      build (chain cs new_CustomPizzaBuilder) =
        \<lparr>size_p = ''Large'', crust_p = ''Thin'',
         toppings_p = [''Cheese'', ''Pepperoni''], sauce_p = ''Spicy''\<rparr>)"
proof -
  have f1: "size_b (setSize s b) = s \<and> crust_b (setSize s b) = crust_b b
      \<and> toppings_b (setSize s b) = toppings_b b \<and> sauce_b (setSize s b) = sauce_b b"
    by (simp add: setSize_def)
  have f2: "crust_b (setCrust c b) = c \<and> size_b (setCrust c b) = size_b b
      \<and> toppings_b (setCrust c b) = toppings_b b \<and> sauce_b (setCrust c b) = sauce_b b"
    by (simp add: setCrust_def)
  have f3: "toppings_b (addTopping t b) = toppings_b b @ [t] \<and> size_b (addTopping t b) = size_b b
      \<and> crust_b (addTopping t b) = crust_b b \<and> sauce_b (addTopping t b) = sauce_b b"
    by (simp add: addTopping_def)
  have f4: "sauce_b (setSauce sc b) = sc \<and> size_b (setSauce sc b) = size_b b
      \<and> crust_b (setSauce sc b) = crust_b b \<and> toppings_b (setSauce sc b) = toppings_b b"
    by (simp add: setSauce_def)
  have order: "mset cs = {#SetSize ''Large'', SetCrust ''Thin'', AddTopping ''Cheese'',
                   AddTopping ''Pepperoni'', SetSauce ''Spicy''#}
        \<and> added_toppings cs = [''Cheese'', ''Pepperoni''] \<longrightarrow>
      build (chain cs new_CustomPizzaBuilder) =
        \<lparr>size_p = ''Large'', crust_p = ''Thin'',
         toppings_p = [''Cheese'', ''Pepperoni''], sauce_p = ''Spicy''\<rparr>"
  proof
    assume a: "mset cs = {#SetSize ''Large'', SetCrust ''Thin'', AddTopping ''Cheese'',
                   AddTopping ''Pepperoni'', SetSauce ''Spicy''#}
        \<and> added_toppings cs = [''Cheese'', ''Pepperoni'']"
    then have perm: "mset cs = {#SetSize ''Large'', SetCrust ''Thin'', AddTopping ''Cheese'',
                   AddTopping ''Pepperoni'', SetSauce ''Spicy''#}"
      and tops: "added_toppings cs = [''Cheese'', ''Pepperoni'']"
      by blast+
    have "set cs = set_mset (mset cs)" by simp
    then have mem: "set cs = {SetSize ''Large'', SetCrust ''Thin'', AddTopping ''Cheese'',
                   AddTopping ''Pepperoni'', SetSauce ''Spicy''}"
      unfolding perm by simp
    have sz: "size_b (chain cs new_CustomPizzaBuilder) = ''Large''"
      by (rule chain_size_set) (simp_all add: mem)
    have cr: "crust_b (chain cs new_CustomPizzaBuilder) = ''Thin''"
      by (rule chain_crust_set) (simp_all add: mem)
    have sa: "sauce_b (chain cs new_CustomPizzaBuilder) = ''Spicy''"
      by (rule chain_sauce_set) (simp_all add: mem)
    have tp: "toppings_b (chain cs new_CustomPizzaBuilder) = [''Cheese'', ''Pepperoni'']"
      by (simp add: chain_toppings tops new_CustomPizzaBuilder_def)
    show "build (chain cs new_CustomPizzaBuilder) =
        \<lparr>size_p = ''Large'', crust_p = ''Thin'',
         toppings_p = [''Cheese'', ''Pepperoni''], sauce_p = ''Spicy''\<rparr>"
      by (simp add: build_def new_Pizza_def sz cr sa tp)
  qed
  show ?thesis
    by (intro conjI f1 f2 f3 f4 order)
qed

theorem builder_result_independent_of_call_order_witness:
  "mset [SetSauce ''Spicy'', AddTopping ''Cheese'', SetCrust ''Thin'',
         AddTopping ''Pepperoni'', SetSize ''Large''] =
     {#SetSize ''Large'', SetCrust ''Thin'', AddTopping ''Cheese'',
       AddTopping ''Pepperoni'', SetSauce ''Spicy''#}
   \<and> added_toppings [SetSauce ''Spicy'', AddTopping ''Cheese'', SetCrust ''Thin'',
         AddTopping ''Pepperoni'', SetSize ''Large''] = [''Cheese'', ''Pepperoni'']
   \<and> build (chain [SetSauce ''Spicy'', AddTopping ''Cheese'', SetCrust ''Thin'',
         AddTopping ''Pepperoni'', SetSize ''Large''] new_CustomPizzaBuilder) =
        \<lparr>size_p = ''Large'', crust_p = ''Thin'',
         toppings_p = [''Cheese'', ''Pepperoni''], sauce_p = ''Spicy''\<rparr>"
proof -
  let ?cs = "[SetSauce ''Spicy'', AddTopping ''Cheese'', SetCrust ''Thin'',
         AddTopping ''Pepperoni'', SetSize ''Large'']"
  have perm: "mset ?cs = {#SetSize ''Large'', SetCrust ''Thin'', AddTopping ''Cheese'',
       AddTopping ''Pepperoni'', SetSauce ''Spicy''#}"
    by simp
  have tops: "added_toppings ?cs = [''Cheese'', ''Pepperoni'']"
    by simp
  note order = builder_result_independent_of_call_order [where cs = ?cs,
      THEN conjunct2, THEN conjunct2, THEN conjunct2, THEN conjunct2]
  have "build (chain ?cs new_CustomPizzaBuilder) =
        \<lparr>size_p = ''Large'', crust_p = ''Thin'',
         toppings_p = [''Cheese'', ''Pepperoni''], sauce_p = ''Spicy''\<rparr>"
    by (rule order [THEN mp, OF conjI [OF perm tops]])
  with perm tops show ?thesis by (intro conjI)
qed


text \<open>
  The claim without the condition on the topping calls fails: the same five calls with
  \<open>Pepperoni\<close> added first build a pizza whose topping list is \<open>Pepperoni\<close>, \<open>Cheese\<close>.
\<close>

theorem builder_topping_order_counterexample:
  "mset [AddTopping ''Pepperoni'', SetSize ''Large'', SetCrust ''Thin'',
         AddTopping ''Cheese'', SetSauce ''Spicy''] =
     {#SetSize ''Large'', SetCrust ''Thin'', AddTopping ''Cheese'',
       AddTopping ''Pepperoni'', SetSauce ''Spicy''#}
   \<and> build (chain [AddTopping ''Pepperoni'', SetSize ''Large'', SetCrust ''Thin'',
         AddTopping ''Cheese'', SetSauce ''Spicy''] new_CustomPizzaBuilder) =
        \<lparr>size_p = ''Large'', crust_p = ''Thin'',
         toppings_p = [''Pepperoni'', ''Cheese''], sauce_p = ''Spicy''\<rparr>
   \<and> build (chain [AddTopping ''Pepperoni'', SetSize ''Large'', SetCrust ''Thin'',
         AddTopping ''Cheese'', SetSauce ''Spicy''] new_CustomPizzaBuilder) \<noteq>
        \<lparr>size_p = ''Large'', crust_p = ''Thin'',
         toppings_p = [''Cheese'', ''Pepperoni''], sauce_p = ''Spicy''\<rparr>"
proof -
  have perm: "mset [AddTopping ''Pepperoni'', SetSize ''Large'', SetCrust ''Thin'',
         AddTopping ''Cheese'', SetSauce ''Spicy''] =
     {#SetSize ''Large'', SetCrust ''Thin'', AddTopping ''Cheese'',
       AddTopping ''Pepperoni'', SetSauce ''Spicy''#}"
    by simp
  have built: "build (chain [AddTopping ''Pepperoni'', SetSize ''Large'', SetCrust ''Thin'',
         AddTopping ''Cheese'', SetSauce ''Spicy''] new_CustomPizzaBuilder) =
        \<lparr>size_p = ''Large'', crust_p = ''Thin'',
         toppings_p = [''Pepperoni'', ''Cheese''], sauce_p = ''Spicy''\<rparr>"
    by (simp add: build_def new_Pizza_def new_CustomPizzaBuilder_def setter_defs)
  have differs: "build (chain [AddTopping ''Pepperoni'', SetSize ''Large'', SetCrust ''Thin'',
         AddTopping ''Cheese'', SetSauce ''Spicy''] new_CustomPizzaBuilder) \<noteq>
        \<lparr>size_p = ''Large'', crust_p = ''Thin'',
         toppings_p = [''Cheese'', ''Pepperoni''], sauce_p = ''Spicy''\<rparr>"
    unfolding built by simp
  from perm built differs show ?thesis by (intro conjI)
qed

section \<open>Properties of the Singleton\<close>

lemma getInstance_first:
  "getInstance now initial =
     (Some 0, \<lparr>instance_s = Some 0, lock = True, heap = [\<lparr>id_c = now\<rparr>]\<rparr>)"
  by (simp add: getInstance_def initial_def new_DatabaseConnection_def Let_def)

lemma getInstance_later:
  "instance_s p = Some r \<Longrightarrow> getInstance now p = (Some r, p)"
  by (simp add: getInstance_def Let_def)

lemma getInstance_calls_later:
  "instance_s p = Some r \<Longrightarrow>
     getInstance_calls nows p = (replicate (length nows) (Some r), p)"
  by (induction nows) (simp_all add: getInstance_later)

lemma getInstance_calls_initial:
  "getInstance_calls (now # rest) initial =
     (replicate (Suc (length rest)) (Some 0),
      \<lparr>instance_s = Some 0, lock = True, heap = [\<lparr>id_c = now\<rparr>]\<rparr>)"
  by (simp add: getInstance_first getInstance_calls_later)

text \<open>
  C2. In a process that starts with no instance, the constructor runs at most once
  over any sequence of accessor calls. Every call of a non-empty sequence returns the
  same reference, the object constructed by the first call, and a further call returns
  that reference again and leaves the whole state, the heap included, unchanged.
\<close>

theorem singleton_same_instance_constructed_once:
  "length (heap (snd (getInstance_calls nows initial))) \<le> 1
   \<and> (nows \<noteq> [] \<longrightarrow>
        fst (getInstance_calls nows initial) = replicate (length nows) (Some 0)
        \<and> heap (snd (getInstance_calls nows initial)) = [\<lparr>id_c = hd nows\<rparr>]
        \<and> getInstance now (snd (getInstance_calls nows initial)) =
            (Some 0, snd (getInstance_calls nows initial)))"
proof (cases nows)
  case Nil
  then show ?thesis by (simp add: initial_def)
next
  case (Cons n rest)
  show ?thesis
    unfolding Cons getInstance_calls_initial by (simp add: getInstance_later)
qed

theorem singleton_same_instance_constructed_once_witness:
  "[''1700000000000'', ''1700000000005''] \<noteq> []
   \<and> fst (getInstance_calls [''1700000000000'', ''1700000000005''] initial) = [Some 0, Some 0]
   \<and> heap (snd (getInstance_calls [''1700000000000'', ''1700000000005''] initial)) =
        [\<lparr>id_c = ''1700000000000''\<rparr>]
   \<and> fst (getInstance ''1700000000009''
         (snd (getInstance_calls [''1700000000000'', ''1700000000005''] initial))) = Some 0"
  using singleton_same_instance_constructed_once
    [of "[''1700000000000'', ''1700000000005'']" "''1700000000009''"]
  by simp


section \<open>Absence of input validation\<close>

text \<open>
  C9. No operation that takes a number or a list checks it. The discount operations
  return the value of their one formula at every amount, rate and price, negative ones
  included, and a flat discount above the price gives a negative total (the sign is the
  same under rounding: the difference of two distinct doubles is never zero). A cart
  takes an item of any price and quantity. A chain of builder calls that adds no
  topping builds a pizza with the empty topping list, and the constructor of the pizza
  takes the empty list. The station stores any reading; the payment adapters and the
  home subsystems print their line for any amount or level.
\<close>

theorem no_input_validation:
  "doDiscount (FlatDiscountStrategy discountAmount) p = p - discountAmount
   \<and> (p < discountAmount \<longrightarrow> doDiscount (FlatDiscountStrategy discountAmount) p < 0)
   \<and> doDiscount (PercentageDiscountStrategy discountRate) p =
        p * (1 - discountRate / 100)
   \<and> getTotalPrice (addItem \<lparr>name = n, price = p, quantity = q\<rparr> (new_Cart s)) =
        doDiscount s (p * q)
   \<and> (added_toppings cs = [] \<longrightarrow>
        toppings_p (build (chain cs new_CustomPizzaBuilder)) = [])
   \<and> new_Pizza sz cr [] sc = \<lparr>size_p = sz, crust_p = cr, toppings_p = [], sauce_p = sc\<rparr>
   \<and> fst (setWeatherData d ws calls) = ws\<lparr>data := d\<rparr>
   \<and> processPayment toString LegacyPaymentAdapter amount console =
        console @ [''Processing Legacy payment : '' @ toString amount]
   \<and> refundPayment toString LegacyPaymentAdapter amount console =
        console @ [''Refunding Legacy payment : '' @ toString amount]
   \<and> processPayment toString ModernPaymentAdapter amount console =
        console @ [''Processing Modern payment : '' @ toString amount]
   \<and> refundPayment toString ModernPaymentAdapter amount console =
        console @ [''Processing Modern payment : '' @ toString amount]
   \<and> dim_lights toString amount console = console @ [''Dim Lights to '' @ toString amount]
   \<and> setVolume toString amount console =
        console @ [''Setting volume to '' @ toString amount]
   \<and> setTemperature toString amount console =
        console @ [''Setting temperature to '' @ toString amount]"
proof -
  have strategies:
    "doDiscount (FlatDiscountStrategy discountAmount) p = p - discountAmount"
    "p < discountAmount \<longrightarrow> doDiscount (FlatDiscountStrategy discountAmount) p < 0"
    "doDiscount (PercentageDiscountStrategy discountRate) p = p * (1 - discountRate / 100)"
    by simp_all
  have cart: "getTotalPrice (addItem \<lparr>name = n, price = p, quantity = q\<rparr> (new_Cart s)) =
        doDiscount s (p * q)"
    by (simp add: getTotalPrice_def addItem_def new_Cart_def)
  have builder: "added_toppings cs = [] \<longrightarrow>
        toppings_p (build (chain cs new_CustomPizzaBuilder)) = []"
    by (simp add: build_def new_Pizza_def chain_toppings new_CustomPizzaBuilder_def)
  have pizza: "new_Pizza sz cr [] sc =
        \<lparr>size_p = sz, crust_p = cr, toppings_p = [], sauce_p = sc\<rparr>"
    by (simp add: new_Pizza_def)
  have station: "fst (setWeatherData d ws calls) = ws\<lparr>data := d\<rparr>"
    by (simp add: setWeatherData_def Let_def)
  have adapters:
    "processPayment toString LegacyPaymentAdapter amount console =
        console @ [''Processing Legacy payment : '' @ toString amount]"
    "refundPayment toString LegacyPaymentAdapter amount console =
        console @ [''Refunding Legacy payment : '' @ toString amount]"
    "processPayment toString ModernPaymentAdapter amount console =
        console @ [''Processing Modern payment : '' @ toString amount]"
    "refundPayment toString ModernPaymentAdapter amount console =
        console @ [''Processing Modern payment : '' @ toString amount]"
    by (simp_all add: makePayment_def cancelPayment_def pay_def reverse_def)
  have home:
    "dim_lights toString amount console = console @ [''Dim Lights to '' @ toString amount]"
    "setVolume toString amount console =
        console @ [''Setting volume to '' @ toString amount]"
    "setTemperature toString amount console =
        console @ [''Setting temperature to '' @ toString amount]"
    by (simp_all add: dim_lights_def setVolume_def setTemperature_def)
  show ?thesis
    by (intro conjI strategies cart builder pizza station adapters home)
qed

theorem no_input_validation_witness:
  "(20::real) < 50
   \<and> doDiscount (FlatDiscountStrategy 50) 20 = - 30
   \<and> doDiscount (FlatDiscountStrategy 50) 20 < 0
   \<and> doDiscount (PercentageDiscountStrategy (- 100)) 20 = 40
   \<and> getTotalPrice (addItem \<lparr>name = ''Shirt'', price = - 20, quantity = 2\<rparr>
        (new_Cart NoDiscountStrategy)) = - 40
   \<and> added_toppings [SetSize ''Large'', SetSauce ''Spicy''] = []
   \<and> toppings_p (build (chain [SetSize ''Large'', SetSauce ''Spicy'']
        new_CustomPizzaBuilder)) = []"
proof -
  note inst = no_input_validation
    [where discountAmount = 50 and p = 20 and discountRate = "- 100"
       and cs = "[SetSize ''Large'', SetSauce ''Spicy'']"]
  have less: "(20::real) < 50" by simp
  have none: "added_toppings [SetSize ''Large'', SetSauce ''Spicy''] = []" by simp
  have flat: "doDiscount (FlatDiscountStrategy 50) 20 = - 30"
    using inst by simp
  have negative: "doDiscount (FlatDiscountStrategy 50) 20 < 0"
    using inst less by blast
  have rate: "doDiscount (PercentageDiscountStrategy (- 100)) 20 = 40"
    using inst by simp
  have cart: "getTotalPrice (addItem \<lparr>name = ''Shirt'', price = - 20, quantity = 2\<rparr>
        (new_Cart NoDiscountStrategy)) = - 40"
    using no_input_validation
      [where p = "- 20" and q = 2 and n = "''Shirt''" and s = NoDiscountStrategy]
    by simp
  have empty: "toppings_p (build (chain [SetSize ''Large'', SetSauce ''Spicy'']
        new_CustomPizzaBuilder)) = []"
    using inst none by blast
  from less flat negative rate cart none empty show ?thesis by (intro conjI)
qed

end
